theory Spec2Isabelle
  imports Main "HOL-Library.Word" "HOL-Library.Sublist"
begin

section \<open>JavaScript strings\<close>

text \<open>
  A JavaScript string is a sequence of 16-bit code units; \<open>length\<close>, \<open>substring\<close>,
  \<open>includes\<close> and \<open>trim\<close> all work on code units. \<open>js\<close> embeds an ASCII literal.
  The three non-ASCII pieces of the source's templates are spelled out as code units.
\<close>

type_synonym jsstring = "16 word list"

definition js :: "string \<Rightarrow> jsstring" where
  "js s = map of_char s"

definition nl :: jsstring where
  "nl = [0x000A]"

definition apos :: jsstring where
  "apos = [0x0027]"

definition bullet :: jsstring where
  "bullet = [0x2022]"

definition briefcase :: jsstring where
  "briefcase = [0xD83D, 0xDCBC]"

text \<open>
  \<open>String.prototype.toLowerCase\<close>. On Basic Latin and Latin-1 (code units below
  U+0100) the mapping is exactly the one below: A-Z and the capital letters
  U+00C0-U+00DE, without the multiplication sign U+00D7, move up by 0x20. Above U+00FF
  the runtime consults the Unicode case tables, which are no part of the repository;
  the model leaves those code units as they are.
\<close>

definition toLowerUnit :: "16 word \<Rightarrow> 16 word" where
  "toLowerUnit c =
     (if (0x41 \<le> c \<and> c \<le> 0x5A) \<or> (0xC0 \<le> c \<and> c \<le> 0xDE \<and> c \<noteq> 0xD7)
      then c + 0x20 else c)"

definition toLowerCase :: "jsstring \<Rightarrow> jsstring" where
  "toLowerCase s = map toLowerUnit s"

text \<open>
  \<open>String.prototype.trim\<close> strips the ECMAScript WhiteSpace and LineTerminator code
  points from both ends: TAB, LF, VT, FF, CR, SP, NBSP, U+1680, U+2000-U+200A, U+2028,
  U+2029, U+202F, U+205F, U+3000 and U+FEFF.
\<close>

definition isWhiteSpace :: "16 word \<Rightarrow> bool" where
  "isWhiteSpace c =
     (c \<in> set [0x0009, 0x000A, 0x000B, 0x000C, 0x000D, 0x0020, 0x00A0, 0x1680,
                0x2028, 0x2029, 0x202F, 0x205F, 0x3000, 0xFEFF]
      \<or> (0x2000 \<le> c \<and> c \<le> 0x200A))"

definition trim :: "jsstring \<Rightarrow> jsstring" where
  "trim s = rev (dropWhile isWhiteSpace (rev (dropWhile isWhiteSpace s)))"

text \<open>\<open>s.includes(t)\<close>: \<open>t\<close> occurs in \<open>s\<close> as a contiguous run of code units.\<close>

fun str_includes :: "jsstring \<Rightarrow> jsstring \<Rightarrow> bool" where
  "str_includes [] t = (t = [])"
| "str_includes (c # s) t = (prefix t (c # s) \<or> str_includes s t)"

text \<open>\<open>s.substring(0, n)\<close> for \<open>n\<close> within the string or beyond it.\<close>

definition substring0 :: "jsstring \<Rightarrow> nat \<Rightarrow> jsstring" where
  "substring0 s n = take n s"

text \<open>A non-negative integer in a template literal: its decimal digits.\<close>

fun decimal :: "nat \<Rightarrow> jsstring" where
  "decimal n =
     (if n < 10 then [of_nat (48 + n)] else decimal (n div 10) @ [of_nat (48 + n mod 10)])"

declare decimal.simps [simp del]

text \<open>
  \<open>a || b\<close> on an optional string: the empty string is falsy, as \<open>undefined\<close> is.
\<close>

definition orElse :: "jsstring option \<Rightarrow> jsstring \<Rightarrow> jsstring" where
  "orElse a b = (case a of None \<Rightarrow> b | Some s \<Rightarrow> if s = [] then b else s)"

text \<open>
  Reading \<open>xs[i]\<close>: out of range the result is \<open>undefined\<close> (\<open>None\<close>), and a
  template literal prints \<open>undefined\<close> as that word.
\<close>

definition at :: "'a list \<Rightarrow> nat \<Rightarrow> 'a option" where
  "at xs i = (if i < length xs then Some (xs ! i) else None)"

definition toStr :: "jsstring option \<Rightarrow> jsstring" where
  "toStr v = (case v of None \<Rightarrow> js ''undefined'' | Some s \<Rightarrow> s)"

section \<open>The company directory\<close>

record CompanyData =
  cik :: jsstring
  ticker :: jsstring
  title :: jsstring

text \<open>
  \<open>knownCompanies\<close> in the order \<open>Object.entries\<close> walks it: none of the keys is an
  integer index, so the order is the order of the object literal.
\<close>

definition knownCompanies :: "(jsstring \<times> CompanyData) list" where
  "knownCompanies =
    [(js ''apple'', \<lparr>cik = js ''0000320193'', ticker = js ''AAPL'', title = js ''Apple Inc.''\<rparr>),
     (js ''microsoft'', \<lparr>cik = js ''0000789019'', ticker = js ''MSFT'', title = js ''Microsoft Corporation''\<rparr>),
     (js ''tesla'', \<lparr>cik = js ''0001318605'', ticker = js ''TSLA'', title = js ''Tesla, Inc.''\<rparr>),
     (js ''amazon'', \<lparr>cik = js ''0001018724'', ticker = js ''AMZN'', title = js ''Amazon.com, Inc.''\<rparr>),
     (js ''google'', \<lparr>cik = js ''0001652044'', ticker = js ''GOOGL'', title = js ''Alphabet Inc.''\<rparr>),
     (js ''alphabet'', \<lparr>cik = js ''0001652044'', ticker = js ''GOOGL'', title = js ''Alphabet Inc.''\<rparr>),
     (js ''meta'', \<lparr>cik = js ''0001326801'', ticker = js ''META'', title = js ''Meta Platforms, Inc.''\<rparr>),
     (js ''facebook'', \<lparr>cik = js ''0001326801'', ticker = js ''META'', title = js ''Meta Platforms, Inc.''\<rparr>),
     (js ''nvidia'', \<lparr>cik = js ''0001045810'', ticker = js ''NVDA'', title = js ''NVIDIA Corporation''\<rparr>),
     (js ''netflix'', \<lparr>cik = js ''0001065280'', ticker = js ''NFLX'', title = js ''Netflix, Inc.''\<rparr>)]"

text \<open>The \<open>for ... of\<close> loop of \<open>_fallbackCompanyLookup\<close>, over the remaining entries.\<close>

fun lookupLoop :: "(jsstring \<times> CompanyData) list \<Rightarrow> jsstring \<Rightarrow> CompanyData option" where
  "lookupLoop [] companyKey = None"
| "lookupLoop ((key, data) # rest) companyKey =
     (if str_includes key companyKey \<or> str_includes companyKey key then Some data
      else lookupLoop rest companyKey)"

definition fallbackCompanyLookup :: "jsstring \<Rightarrow> CompanyData option" where
  "fallbackCompanyLookup companyName =
     (let companyKey = trim (toLowerCase companyName)
      in lookupLoop knownCompanies companyKey)"

section \<open>The query classifier\<close>

definition financialIndicators :: "jsstring list" where
  "financialIndicators =
    [js ''company'', js ''financial'', js ''revenue'', js ''earnings'', js ''profit'', js ''stock'',
     js ''investment'', js ''market cap'', js ''sec filing'', js ''annual report'',
     js ''quarterly'', js ''balance sheet'', js ''income statement'', js ''cash flow'',
     js ''public company'', js ''ticker'', js ''investor'', js ''shareholder'']"

definition isFinancialQuery :: "jsstring \<Rightarrow> bool" where
  "isFinancialQuery query =
     (let queryLower = toLowerCase query
      in list_ex (\<lambda>indicator. str_includes queryLower indicator) financialIndicators)"

section \<open>Submissions and the report formatter\<close>

record Recent =
  form :: "jsstring list option"
  filingDate :: "jsstring list option"
  accessionNumber :: "jsstring list option"

record Filings =
  recent :: "Recent option"

record CompanySubmissions =
  description :: "jsstring option"
  sic :: "jsstring option"
  fiscalYearEnd :: "jsstring option"
  filings :: "Filings option"

text \<open>
  An element of \<open>recentKeyFilings\<close>. Its fields hold what the array reads returned, so
  a read out of range would show as \<open>None\<close>.
\<close>

record KeyFiling =
  filingForm :: "jsstring option"
  date :: "jsstring option"
  accession :: "jsstring option"

definition keyForms :: "jsstring list" where
  "keyForms = [js ''10-K'', js ''10-Q'', js ''8-K'', js ''DEF 14A'']"

definition formDescriptions :: "(jsstring \<times> jsstring) list" where
  "formDescriptions =
    [(js ''10-K'', js ''Annual Report''),
     (js ''10-Q'', js ''Quarterly Report''),
     (js ''8-K'', js ''Current Report''),
     (js ''DEF 14A'', js ''Proxy Statement'')]"

text \<open>\<open>keyForms.includes(form)\<close>, where \<open>form\<close> is the result of an array read.\<close>

definition arr_includes :: "jsstring list \<Rightarrow> jsstring option \<Rightarrow> bool" where
  "arr_includes xs v = (case v of None \<Rightarrow> False | Some x \<Rightarrow> x \<in> set xs)"

text \<open>
  The \<open>for\<close> loop of \<open>_analyzeRecentFilings\<close>, from index \<open>i\<close> on, with the filings
  pushed so far.
\<close>

function analyzeLoop ::
  "jsstring list \<Rightarrow> jsstring list \<Rightarrow> jsstring list \<Rightarrow> nat \<Rightarrow> KeyFiling list \<Rightarrow> KeyFiling list" where
  "analyzeLoop forms filingDates accessionNumbers i recentKeyFilings =
     (if i < min (length forms) 20 then
        analyzeLoop forms filingDates accessionNumbers (i + 1)
          (if arr_includes keyForms (at forms i) \<and> i < length filingDates
           then recentKeyFilings @
                  [\<lparr>filingForm = at forms i,
                    date = at filingDates i,
                    accession = (if i < length accessionNumbers then at accessionNumbers i
                                 else Some (js ''N/A''))\<rparr>]
           else recentKeyFilings)
      else recentKeyFilings)"
  by pat_completeness auto
termination
  by (relation "measure (\<lambda>(forms, filingDates, accessionNumbers, i, recentKeyFilings).
        min (length forms) 20 - i)") auto

declare analyzeLoop.simps [simp del]

definition orEmpty :: "jsstring list option \<Rightarrow> jsstring list" where
  "orEmpty a = (case a of None \<Rightarrow> [] | Some xs \<Rightarrow> xs)"

definition recentKeyFilingsOf :: "Recent \<Rightarrow> KeyFiling list" where
  "recentKeyFilingsOf recentFilings =
     (let forms = orEmpty (form recentFilings);
          filingDates = orEmpty (filingDate recentFilings);
          accessionNumbers = orEmpty (accessionNumber recentFilings)
      in analyzeLoop forms filingDates accessionNumbers 0 [])"

text \<open>
  One pass of the \<open>forEach\<close> body. \<open>formDescriptions[filing.form] || filing.form\<close>:
  the four descriptions are non-empty, so the right operand is taken only when the
  lookup finds nothing.
\<close>

definition filingLine :: "KeyFiling \<Rightarrow> jsstring" where
  "filingLine filing =
     (let description =
            (case Option.bind (filingForm filing) (map_of formDescriptions) of
               None \<Rightarrow> filingForm filing
             | Some d \<Rightarrow> Some d)
      in bullet @ js '' '' @ toStr (filingForm filing) @ js '' ('' @ toStr description
           @ js '') - Filed: '' @ toStr (date filing) @ nl)"

definition analyzeRecentFilings :: "CompanySubmissions \<Rightarrow> jsstring" where
  "analyzeRecentFilings submissions =
     (let result = js ''**Recent SEC Filings:**'' @ nl
      in case Option.bind (filings submissions) recent of
           None \<Rightarrow> result @ bullet @ js '' No recent filings available'' @ nl @ nl
         | Some recentFilings \<Rightarrow>
             (let recentKeyFilings = recentKeyFilingsOf recentFilings;
                  result =
                    (if length recentKeyFilings > 0
                     then result @ concat (map filingLine (take 5 recentKeyFilings))
                     else result @ bullet
                            @ js '' No key financial filings found in recent submissions'' @ nl)
              in result @ nl))"

definition extractFinancialHighlights :: "CompanySubmissions \<Rightarrow> jsstring" where
  "extractFinancialHighlights submissions =
     (let result = js ''**Financial Data Analysis:**'' @ nl;
          result = result @ bullet @ js '' Filing Status: Active public company'' @ nl;
          result = result @ bullet
                     @ js '' Regulatory Compliance: Current with SEC requirements'' @ nl;
          recentFilings = Option.bind (filings submissions) recent;
          result =
            (case Option.bind recentFilings form of
               None \<Rightarrow> result
             | Some forms \<Rightarrow>
                 (let annualReports = length (filter (\<lambda>form. form = js ''10-K'') forms);
                      quarterlyReports = length (filter (\<lambda>form. form = js ''10-Q'') forms)
                  in result
                       @ bullet @ js '' Annual Reports (10-K): '' @ decimal annualReports
                       @ js '' on file'' @ nl
                       @ bullet @ js '' Quarterly Reports (10-Q): '' @ decimal quarterlyReports
                       @ js '' on file'' @ nl));
          result = result @ bullet
                     @ js '' Note: Detailed financial metrics require parsing individual filing documents''
                     @ nl @ nl;
          result = result @ js ''**Investment Research Notes:**'' @ nl;
          result = result @ bullet
                     @ js '' Use SEC filings for: revenue trends, risk factors, management discussion''
                     @ nl;
          result = result @ bullet
                     @ js '' Key documents: 10-K (annual), 10-Q (quarterly), 8-K (material events)''
                     @ nl;
          result = result @ bullet
                     @ js '' Combine with market data for comprehensive analysis'' @ nl @ nl
      in result)"

text \<open>
  The business-description line: \<open>if (submissions.description)\<close> skips a missing
  description and an empty one alike.
\<close>

definition descriptionLine :: "CompanySubmissions \<Rightarrow> jsstring" where
  "descriptionLine submissions =
     (case description submissions of
        None \<Rightarrow> []
      | Some d \<Rightarrow>
          if d = [] then []
          else (let businessDesc = (if length d > 300 then substring0 d 300 @ js ''...'' else d)
                in bullet @ js '' Business Description: '' @ businessDesc @ nl))"

definition formatSECResults :: "jsstring \<Rightarrow> CompanyData \<Rightarrow> CompanySubmissions \<Rightarrow> jsstring" where
  "formatSECResults companyName cikData submissions =
     (let result = js ''**SEC Financial Data for: '' @ companyName @ js ''**'' @ nl @ nl;
          result = result @ js ''**Company Information:**'' @ nl;
          result = result @ bullet @ js '' Official Name: '' @ title cikData @ nl;
          result = result @ bullet @ js '' Ticker Symbol: ''
                     @ orElse (Some (ticker cikData)) (js ''N/A'') @ nl;
          result = result @ bullet @ js '' CIK: '' @ cik cikData @ nl;
          result = result @ descriptionLine submissions;
          result = result @ bullet @ js '' Industry: ''
                     @ orElse (sic submissions) (js ''Not specified'') @ nl;
          result = result @ bullet @ js '' Fiscal Year End: ''
                     @ orElse (fiscalYearEnd submissions) (js ''Not specified'') @ nl @ nl;
          result = result @ analyzeRecentFilings submissions;
          result = result @ extractFinancialHighlights submissions
      in result)"

definition fallbackCompanySearch :: "jsstring \<Rightarrow> jsstring" where
  "fallbackCompanySearch companyName =
     (let result = js ''**SEC Financial Research for: '' @ companyName @ js ''**'' @ nl @ nl;
          result = result @ js ''**Company Search Results:**'' @ nl;
          result = result @ bullet @ js '' Company '' @ apos @ companyName @ apos
                     @ js '' not found in SEC EDGAR database'' @ nl;
          result = result @ bullet @ js '' This may indicate the company is:'' @ nl;
          result = result @ js ''  - Private company (not required to file with SEC)'' @ nl;
          result = result @ js ''  - Foreign company not listed on US exchanges'' @ nl;
          result = result @ js ''  - Subsidiary of another public company'' @ nl;
          result = result @ js ''  - Different legal name than search term'' @ nl @ nl;
          result = result @ js ''**Alternative Research Suggestions:**'' @ nl;
          result = result @ bullet @ js '' Search for parent company or holding company'' @ nl;
          result = result @ bullet
                     @ js '' Check if company trades under different ticker symbol'' @ nl;
          result = result @ bullet @ js '' Use company's full legal name for search'' @ nl;
          result = result @ bullet
                     @ js '' Consider private company databases for non-public entities''
                     @ nl @ nl
      in result)"

section \<open>The query pipeline\<close>

text \<open>A thrown value: an \<open>Error\<close> (or \<open>TypeError\<close>) with its message.\<close>

datatype exn = Error (message: jsstring)

text \<open>
  What the disclosure API answers. \<open>fetch\<close> rejects (a network failure) or resolves
  to a response with a status; \<open>response.json()\<close> rejects on a malformed body or
  resolves to the parsed value, taken at its declared type \<open>CompanySubmissions\<close>, or to
  \<open>null\<close> (\<open>None\<close>).
\<close>

record Response =
  status :: nat
  json :: "exn + CompanySubmissions option"

definition ok :: "Response \<Rightarrow> bool" where
  "ok response = (200 \<le> status response \<and> status response \<le> 299)"

record env =
  fetch :: "jsstring \<Rightarrow> exn + Response"
  latency :: nat
  timerLag :: nat

text \<open>
  The state one query leaves to the next: the agent's \<open>lastRequestTime\<close>, the clock that
  \<open>Date.now()\<close> reads (milliseconds), and a log of the directory lookups and of the
  requests sent, each request with the time at which it was issued. The clock moves
  only while the agent waits: a timer set for \<open>waitTime\<close> fires after
  \<open>waitTime + timerLag\<close>, a request takes \<open>latency\<close>, and \<open>elapse\<close> is the time
  that passes between two queries.
\<close>

datatype call = Lookup jsstring | Fetch jsstring int

record state =
  lastRequestTime :: int
  clock :: int
  calls :: "call list"

definition elapse :: "nat \<Rightarrow> state \<Rightarrow> state" where
  "elapse d s = s\<lparr>clock := clock s + int d\<rparr>"

definition baseUrl :: jsstring where
  "baseUrl = js ''https://data.sec.gov''"

definition rateLimitDelay :: int where
  "rateLimitDelay = 3000"

definition rateLimit :: "env \<Rightarrow> state \<Rightarrow> state" where
  "rateLimit e s =
     (let now = clock s;
          timeSinceLastRequest = now - lastRequestTime s;
          waitTime = rateLimitDelay - timeSinceLastRequest;
          s = (if waitTime > 0 then s\<lparr>clock := clock s + waitTime + int (timerLag e)\<rparr> else s)
      in s\<lparr>lastRequestTime := clock s\<rparr>)"

text \<open>
  \<open>_findCompanyCIK\<close>: the \<open>try\<close> block is the directory lookup alone, which raises
  nothing, so its \<open>catch\<close> branch (the same lookup once more) is never entered.
\<close>

definition findCompanyCIK :: "jsstring \<Rightarrow> state \<Rightarrow> CompanyData option \<times> state" where
  "findCompanyCIK companyName s =
     (fallbackCompanyLookup companyName, s\<lparr>calls := calls s @ [Lookup companyName]\<rparr>)"

text \<open>
  \<open>_getCompanySubmissions\<close>: whatever is thrown inside the \<open>try\<close> block, the status
  error included, is caught and turned into \<open>null\<close>.
\<close>

definition submissionsUrlOf :: "jsstring \<Rightarrow> jsstring" where
  "submissionsUrlOf cik' = baseUrl @ js ''/submissions/CIK'' @ cik' @ js ''.json''"

definition getCompanySubmissions ::
  "env \<Rightarrow> jsstring \<Rightarrow> state \<Rightarrow> CompanySubmissions option \<times> state" where
  "getCompanySubmissions e cik' s =
     (let submissionsUrl = submissionsUrlOf cik';
          s = s\<lparr>calls := calls s @ [Fetch submissionsUrl (clock s)],
                clock := clock s + int (latency e)\<rparr>;
          attempt =
            (case fetch e submissionsUrl of
               Inl error \<Rightarrow> Inl error
             | Inr response \<Rightarrow>
                 if \<not> ok response
                 then Inl (Error (js ''SEC API error: '' @ decimal (status response)))
                 else json response)
      in case attempt of
           Inl error \<Rightarrow> (None, s)
         | Inr submissions \<Rightarrow> (submissions, s))"

text \<open>
  The \<open>try\<close> block of \<open>_searchSEC\<close>, then \<open>_searchSEC\<close> with its \<open>catch\<close>: the
  fallback report for an error whose message contains \<open>404\<close>, the error thrown on
  otherwise. With the submissions at their declared type nothing in the block raises,
  so the result is always a report. The request's headers are fixed and left out.
\<close>

definition searchSECBody :: "env \<Rightarrow> jsstring \<Rightarrow> state \<Rightarrow> (exn + jsstring) \<times> state" where
  "searchSECBody e companyName s =
     (let (cikData, s) = findCompanyCIK companyName s
      in case cikData of
           None \<Rightarrow> (Inr (fallbackCompanySearch companyName), s)
         | Some cd \<Rightarrow>
             (let (submissions, s) = getCompanySubmissions e (cik cd) s
              in case submissions of
                   Some subs \<Rightarrow> (Inr (formatSECResults companyName cd subs), s)
                 | None \<Rightarrow> (Inr (fallbackCompanySearch companyName), s)))"

definition searchSEC :: "env \<Rightarrow> jsstring \<Rightarrow> state \<Rightarrow> (exn + jsstring) \<times> state" where
  "searchSEC e companyName s =
     (let s = rateLimit e s;
          (outcome, s) = searchSECBody e companyName s
      in case outcome of
           Inl error \<Rightarrow>
             if str_includes (message error) (js ''404'')
             then (Inr (fallbackCompanySearch companyName), s)
             else (Inl error, s)
         | Inr results \<Rightarrow> (Inr results, s))"

text \<open>
  The utterance event. Every link of \<open>event.parameters?.dialogEvent?.features?.text?.tokens\<close>
  may be missing. The tokens arrive typed \<open>any\<close>: a token is an object whose \<open>value\<close>
  is a string or is missing, or it is \<open>null\<close>, and then reading \<open>token.value\<close> raises
  a \<open>TypeError\<close>.
\<close>

datatype Token = NullToken | Token "jsstring option"

record TextFeature =
  tokens :: "Token list option"

record Features =
  textFeature :: "TextFeature option"

record DialogEvent =
  features :: "Features option"

record Parameters =
  dialogEvent :: "DialogEvent option"

record UtteranceEvent =
  parameters :: "Parameters option"

definition tokensOf :: "UtteranceEvent \<Rightarrow> Token list option" where
  "tokensOf event =
     Option.bind (Option.bind (Option.bind (Option.bind (parameters event) dialogEvent)
       features) textFeature) tokens"

fun tokenValue :: "Token \<Rightarrow> exn + jsstring option" where
  "tokenValue NullToken = Inl (Error (js ''Cannot read properties of null (reading 'value')''))"
| "tokenValue (Token v) = Inr v"

text \<open>\<open>tokens.map(token => token.value)\<close>, stopping at the first token that raises.\<close>

fun mapTokenValues :: "Token list \<Rightarrow> exn + jsstring option list" where
  "mapTokenValues [] = Inr []"
| "mapTokenValues (t # ts) =
     (case tokenValue t of
        Inl error \<Rightarrow> Inl error
      | Inr v \<Rightarrow> (case mapTokenValues ts of Inl error \<Rightarrow> Inl error | Inr vs \<Rightarrow> Inr (v # vs)))"

text \<open>\<open>join('')\<close>: an \<open>undefined\<close> element contributes the empty string.\<close>

definition join :: "jsstring option list \<Rightarrow> jsstring" where
  "join vs = concat (map (\<lambda>v. case v of None \<Rightarrow> [] | Some x \<Rightarrow> x) vs)"

text \<open>
  The response built by the protocol library's \<open>createTextUtterance\<close>: who speaks, the
  text, and whom it is addressed to.
\<close>

record TextUtterance =
  speakerUri :: jsstring
  messageText :: jsstring
  toSpeakerUri :: jsstring

definition createTextUtterance :: "jsstring \<Rightarrow> jsstring \<Rightarrow> jsstring \<Rightarrow> TextUtterance" where
  "createTextUtterance speaker txt' recipient =
     \<lparr>speakerUri = speaker, messageText = txt', toSpeakerUri = recipient\<rparr>"

definition needNameMessage :: jsstring where
  "needNameMessage =
     briefcase @ js '' I need a company name to research SEC filings and financial data!''"

definition scopeMessage :: jsstring where
  "scopeMessage =
     briefcase @ js '' I specialize in financial research for public companies. Try searching for company names, stock symbols, or financial terms. Use the terms 'company', 'financial', 'revenue', 'earnings', 'profit', 'stock', 'investment', 'market cap', 'sec filing', 'annual report', 'quarterly', 'balance sheet', 'income statement', 'cash flow', 'public company', 'ticker', 'investor', 'shareholder' in your query.''"

definition apologyMessage :: jsstring where
  "apologyMessage =
     briefcase @ js '' I encountered an error while searching SEC filings. Please try again with a different company name.''"

text \<open>
  The \<open>try\<close> block of \<open>_handleFinancialQuery\<close>, then the handler with its \<open>catch\<close>.
  \<open>self\<close> is the agent's own speaker URI, \<open>sender\<close> the one of the envelope's sender.
\<close>

definition handleFinancialQueryBody ::
  "env \<Rightarrow> jsstring \<Rightarrow> UtteranceEvent \<Rightarrow> jsstring \<Rightarrow> state \<Rightarrow> (exn + TextUtterance) \<times> state" where
  "handleFinancialQueryBody e self event sender s =
     (case tokensOf event of
        None \<Rightarrow> (Inr (createTextUtterance self needNameMessage sender), s)
      | Some toks \<Rightarrow>
          if length toks = 0 then (Inr (createTextUtterance self needNameMessage sender), s)
          else
            (case mapTokenValues toks of
               Inl error \<Rightarrow> (Inl error, s)
             | Inr vals \<Rightarrow>
                 (let companyName = join vals
                  in if \<not> isFinancialQuery companyName
                     then (Inr (createTextUtterance self scopeMessage sender), s)
                     else
                       (case searchSEC e companyName s of
                          (Inl error, s) \<Rightarrow> (Inl error, s)
                        | (Inr results, s) \<Rightarrow>
                            (Inr (createTextUtterance self results sender), s)))))"

definition handleFinancialQuery ::
  "env \<Rightarrow> jsstring \<Rightarrow> UtteranceEvent \<Rightarrow> jsstring \<Rightarrow> state \<Rightarrow> (exn + TextUtterance) \<times> state" where
  "handleFinancialQuery e self event sender s =
     (case handleFinancialQueryBody e self event sender s of
        (Inl error, s) \<Rightarrow> (Inr (createTextUtterance self apologyMessage sender), s)
      | (Inr response, s) \<Rightarrow> (Inr response, s))"

section \<open>Auxiliary facts\<close>

lemma str_includes_iff: "str_includes s t \<longleftrightarrow> (\<exists>p q. s = p @ t @ q)"
proof (induction s)
  case Nil
  then show ?case by auto
next
  case (Cons c s)
  note IH = Cons.IH
  show ?case
  proof
    assume "str_includes (c # s) t"
    then consider "prefix t (c # s)" | "str_includes s t" by auto
    then show "\<exists>p q. c # s = p @ t @ q"
    proof cases
      case 1
      then obtain q where "c # s = t @ q" by (auto simp: prefix_def)
      then have "c # s = [] @ t @ q" by simp
      then show ?thesis by blast
    next
      case 2
      with IH obtain p q where "s = p @ t @ q" by blast
      then have "c # s = (c # p) @ t @ q" by simp
      then show ?thesis by blast
    qed
  next
    assume "\<exists>p q. c # s = p @ t @ q"
    then obtain p q where pq: "c # s = p @ t @ q" by blast
    show "str_includes (c # s) t"
    proof (cases p)
      case Nil
      with pq have "prefix t (c # s)" by (simp add: prefix_def)
      then show ?thesis by simp
    next
      case (Cons a p')
      with pq have "s = p' @ t @ q" by simp
      with IH have "str_includes s t" by blast
      then show ?thesis by simp
    qed
  qed
qed

lemma str_includes_after: "prefix (p @ t) s \<Longrightarrow> str_includes s t"
  by (auto simp: str_includes_iff prefix_def)

lemma str_includes_skip: "str_includes b t \<Longrightarrow> str_includes (a @ b) t"
proof -
  assume "str_includes b t"
  then obtain p q where "b = p @ t @ q" by (auto simp: str_includes_iff)
  then have "a @ b = (a @ p) @ t @ q" by simp
  then show ?thesis unfolding str_includes_iff by blast
qed

lemma str_includes_trans: "str_includes a b \<Longrightarrow> str_includes b c \<Longrightarrow> str_includes a c"
proof -
  assume "str_includes a b" "str_includes b c"
  then obtain p q p' q' where "a = p @ b @ q" "b = p' @ c @ q'"
    by (auto simp: str_includes_iff)
  then have "a = (p @ p') @ c @ (q' @ q)" by simp
  then show ?thesis unfolding str_includes_iff by blast
qed

lemma str_includes_prefix: "prefix t s \<Longrightarrow> str_includes s t"
  using str_includes_after [of "[]" t s] by simp


lemma getCompanySubmissions_fst:
  "fst (getCompanySubmissions e c s) =
     (case fetch e (submissionsUrlOf c) of
        Inl error \<Rightarrow> None
      | Inr response \<Rightarrow>
          if ok response then (case json response of Inl error \<Rightarrow> None | Inr v \<Rightarrow> v) else None)"
  by (simp add: getCompanySubmissions_def Let_def split: sum.splits)

lemma getCompanySubmissions_snd:
  "snd (getCompanySubmissions e c s) =
     s\<lparr>calls := calls s @ [Fetch (submissionsUrlOf c) (clock s)],
       clock := clock s + int (latency e)\<rparr>"
  by (simp add: getCompanySubmissions_def Let_def split: sum.splits)

lemma searchSECBody_fst:
  "fst (searchSECBody e n s) =
     Inr (case fallbackCompanyLookup n of
            None \<Rightarrow> fallbackCompanySearch n
          | Some cd \<Rightarrow>
              (case fst (getCompanySubmissions e (cik cd) s') of
                 None \<Rightarrow> fallbackCompanySearch n
               | Some subs \<Rightarrow> formatSECResults n cd subs))"
  by (simp add: searchSECBody_def findCompanyCIK_def getCompanySubmissions_fst
      split_beta Let_def split: option.splits)

lemma searchSECBody_snd:
  "snd (searchSECBody e n s) =
     (case fallbackCompanyLookup n of
        None \<Rightarrow> s\<lparr>calls := calls s @ [Lookup n]\<rparr>
      | Some cd \<Rightarrow>
          s\<lparr>calls := calls s @ [Lookup n, Fetch (submissionsUrlOf (cik cd)) (clock s)],
            clock := clock s + int (latency e)\<rparr>)"
  by (simp add: searchSECBody_def findCompanyCIK_def getCompanySubmissions_snd
      split_beta Let_def split: option.splits)


lemma searchSEC_snd:
  "snd (searchSEC e n s) = snd (searchSECBody e n (rateLimit e s))"
proof -
  obtain r where r: "fst (searchSECBody e n (rateLimit e s)) = Inr r"
    using searchSECBody_fst [of e n "rateLimit e s" s] by blast
  then show ?thesis
    by (simp add: searchSEC_def Let_def split_beta)
qed

lemma rateLimit_clock:
  "clock (rateLimit e s) =
     clock s + max 0 (rateLimitDelay - (clock s - lastRequestTime s))
       + (if clock s - lastRequestTime s < rateLimitDelay then int (timerLag e) else 0)"
  by (simp add: rateLimit_def Let_def)

lemma rateLimit_last: "lastRequestTime (rateLimit e s) = clock (rateLimit e s)"
  by (simp add: rateLimit_def Let_def)

lemma rateLimit_calls: "calls (rateLimit e s) = calls s"
  by (simp add: rateLimit_def Let_def)

lemma handler_out_of_scope:
  assumes "tokensOf event = Some toks" and "toks \<noteq> []"
    and "mapTokenValues toks = Inr vals"
    and "\<not> isFinancialQuery (join vals)"
  shows "handleFinancialQuery e self event sender s =
           (Inr (createTextUtterance self scopeMessage sender), s)"
  using assms by (simp add: handleFinancialQuery_def handleFinancialQueryBody_def)



lemma analyzeLoop_eq:
  "analyzeLoop forms dates accs i acc =
     acc @ map (\<lambda>i. \<lparr>filingForm = Some (forms ! i), date = Some (dates ! i),
                      accession = Some (if i < length accs then accs ! i else js ''N/A'')\<rparr>)
            (filter (\<lambda>i. forms ! i \<in> set keyForms \<and> i < length dates)
               [i..<min (length forms) 20])"
proof (induction forms dates accs i acc rule: analyzeLoop.induct)
  case (1 forms dates accs i acc)
  show ?case
  proof (cases "i < min (length forms) 20")
    case True
    then have upt: "[i..<min (length forms) 20] = i # [i + 1..<min (length forms) 20]"
      by (simp add: upt_conv_Cons)
    from True have f: "at forms i = Some (forms ! i)" by (simp add: at_def)
    from True have lt: "i < length forms" "i < 20" by simp_all
    have "analyzeLoop forms dates accs i acc =
            analyzeLoop forms dates accs (i + 1)
              (if arr_includes keyForms (at forms i) \<and> i < length dates
               then acc @ [\<lparr>filingForm = at forms i, date = at dates i,
                            accession = (if i < length accs then at accs i
                                         else Some (js ''N/A''))\<rparr>]
               else acc)"
      using True by (subst analyzeLoop.simps) simp
    also have "\<dots> = acc @ map (\<lambda>i. \<lparr>filingForm = Some (forms ! i), date = Some (dates ! i),
                      accession = Some (if i < length accs then accs ! i else js ''N/A'')\<rparr>)
            (filter (\<lambda>i. forms ! i \<in> set keyForms \<and> i < length dates)
               (i # [i + 1..<min (length forms) 20]))"
      by (subst "1.IH" [OF True]) (simp add: f lt arr_includes_def at_def)
    finally show ?thesis by (simp only: upt)
  next
    case False
    then have e: "[i..<min (length forms) 20] = []" by auto
    from False have "analyzeLoop forms dates accs i acc = acc"
      by (subst analyzeLoop.simps) (simp only: if_False)
    then show ?thesis unfolding e by simp
  qed
qed



lemma str_includes_empty: "str_includes s []"
  by (cases s) simp_all

lemma toLowerUnit_ws: "isWhiteSpace c \<Longrightarrow> toLowerUnit c = c"
  by (auto simp: isWhiteSpace_def toLowerUnit_def word_le_nat_alt)

lemma toLowerCase_ws: "\<forall>c \<in> set s. isWhiteSpace c \<Longrightarrow> toLowerCase s = s"
  by (simp add: toLowerCase_def toLowerUnit_ws map_idI)

lemma trim_ws: "\<forall>c \<in> set s. isWhiteSpace c \<Longrightarrow> trim (toLowerCase s) = []"
proof -
  assume a: "\<forall>c \<in> set s. isWhiteSpace c"
  then have 1: "toLowerCase s = s" by (rule toLowerCase_ws)
  from a have 2: "dropWhile isWhiteSpace s = []" by simp
  show ?thesis unfolding trim_def 1 2 by simp
qed

lemma str_includes_set: "str_includes s t \<Longrightarrow> set t \<subseteq> set s"
  by (auto simp: str_includes_iff)

lemma indicators_not_ws:
  "\<forall>k \<in> set financialIndicators. \<exists>c \<in> set k. \<not> isWhiteSpace c"
  by (simp add: financialIndicators_def js_def isWhiteSpace_def)

lemma ws_not_financial:
  assumes "\<forall>c \<in> set s. isWhiteSpace c"
  shows "\<not> isFinancialQuery s"
proof
  assume "isFinancialQuery s"
  then obtain k where k: "k \<in> set financialIndicators" "str_includes s k"
    using assms by (auto simp: isFinancialQuery_def Let_def list_ex_iff toLowerCase_ws)
  from k(2) have "set k \<subseteq> set s" by (rule str_includes_set)
  with assms have "\<forall>c \<in> set k. isWhiteSpace c" by blast
  with indicators_not_ws k(1) show False by blast
qed

section \<open>The directory lookup\<close>



text \<open>
  C1. The claim that an empty or whitespace-only name resolves to nothing does not
  hold of the lookup itself: every key contains the empty string, so the first entry of
  the table is returned. What holds is this: on such a name the lookup returns the first
  entry, Apple Inc.; the name is no financial query, and the handler answers an
  utterance carrying it with the scope guidance and leaves the state untouched, so the
  lookup is never asked about it.
\<close>

theorem whitespace_name_lookup:
  assumes "\<forall>c \<in> set companyName. isWhiteSpace c"
  shows "fallbackCompanyLookup companyName =
           Some \<lparr>cik = js ''0000320193'', ticker = js ''AAPL'', title = js ''Apple Inc.''\<rparr>
         \<and> \<not> isFinancialQuery companyName
         \<and> (\<forall>event toks vals e self sender s.
               tokensOf event = Some toks \<and> toks \<noteq> [] \<and> mapTokenValues toks = Inr vals
                 \<and> join vals = companyName \<longrightarrow>
               handleFinancialQuery e self event sender s =
                 (Inr (createTextUtterance self scopeMessage sender), s))"
proof (intro conjI allI impI)
  show "fallbackCompanyLookup companyName =
           Some \<lparr>cik = js ''0000320193'', ticker = js ''AAPL'', title = js ''Apple Inc.''\<rparr>"
    using assms
    by (simp add: fallbackCompanyLookup_def trim_ws knownCompanies_def str_includes_empty)
  show "\<not> isFinancialQuery companyName"
    using assms by (rule ws_not_financial)
  fix event toks vals e self sender s
  assume a: "tokensOf event = Some toks \<and> toks \<noteq> [] \<and> mapTokenValues toks = Inr vals
                 \<and> join vals = companyName"
  with assms have "\<not> isFinancialQuery (join vals)" by (simp add: ws_not_financial)
  with a show "handleFinancialQuery e self event sender s =
                 (Inr (createTextUtterance self scopeMessage sender), s)"
    by (simp add: handler_out_of_scope)
qed

theorem whitespace_name_lookup_witness:
  "list_all isWhiteSpace (js ''  '')
   \<and> fallbackCompanyLookup (js ''  '') =
       Some \<lparr>cik = js ''0000320193'', ticker = js ''AAPL'', title = js ''Apple Inc.''\<rparr>
   \<and> handleFinancialQuery
         \<lparr>fetch = (\<lambda>url. Inl (Error [])), latency = 0, timerLag = 0\<rparr>
         (js ''agent'')
         \<lparr>parameters = Some \<lparr>dialogEvent = Some \<lparr>features = Some \<lparr>textFeature =
            Some \<lparr>tokens = Some [Token (Some (js ''  ''))]\<rparr>\<rparr>\<rparr>\<rparr>\<rparr>
         (js ''user'')
         \<lparr>lastRequestTime = 0, clock = 5000, calls = []\<rparr>
       = (Inr (createTextUtterance (js ''agent'') scopeMessage (js ''user'')),
          \<lparr>lastRequestTime = 0, clock = 5000, calls = []\<rparr>)"
proof -
  have h: "\<forall>c \<in> set (js ''  ''). isWhiteSpace c"
    by (simp add: js_def isWhiteSpace_def)
  have t: "tokensOf \<lparr>parameters = Some \<lparr>dialogEvent = Some \<lparr>features = Some \<lparr>textFeature =
            Some \<lparr>tokens = Some [Token (Some (js ''  ''))]\<rparr>\<rparr>\<rparr>\<rparr>\<rparr>
           = Some [Token (Some (js ''  ''))]"
    by (simp add: tokensOf_def)
  have m: "mapTokenValues [Token (Some (js ''  ''))] = Inr [Some (js ''  '')]"
    by simp
  have j: "join [Some (js ''  '')] = js ''  ''"
    by (simp add: join_def)
  from h have h': "list_all isWhiteSpace (js ''  '')"
    by (simp add: list_all_iff)
  from whitespace_name_lookup [OF h] t m j h' show ?thesis
    by blast
qed

text \<open>The empty name and a single space both resolve, against the claim as stated.\<close>

theorem empty_name_counterexample:
  "fallbackCompanyLookup [] \<noteq> None \<and> fallbackCompanyLookup (js '' '') \<noteq> None"
  by (simp add: fallbackCompanyLookup_def js_def toLowerCase_def toLowerUnit_def trim_def
      isWhiteSpace_def knownCompanies_def)

section \<open>The query handler\<close>

lemma searchSEC_calls:
  "calls (snd (searchSEC e n s)) =
     calls s @ Lookup n #
       (case fallbackCompanyLookup n of
          None \<Rightarrow> []
        | Some cd \<Rightarrow> [Fetch (submissionsUrlOf (cik cd)) (clock (rateLimit e s))])"
  by (simp add: searchSEC_snd searchSECBody_snd rateLimit_calls split: option.splits)









section \<open>The rate limiter\<close>

lemma searchSEC_last:
  "lastRequestTime (snd (searchSEC e n s)) = clock (rateLimit e s)"
  by (simp add: searchSEC_snd searchSECBody_snd rateLimit_last split: option.splits)

lemma searchSEC_clock:
  "clock (snd (searchSEC e n s)) =
     clock (rateLimit e s)
       + (case fallbackCompanyLookup n of None \<Rightarrow> 0 | Some cd \<Rightarrow> int (latency e))"
  by (simp add: searchSEC_snd searchSECBody_snd split: option.splits)

lemma rateLimit_gap:
  "lastRequestTime s + rateLimitDelay \<le> clock (rateLimit e s)"
  by (simp add: rateLimit_clock)

lemma rateLimit_no_wait:
  "rateLimitDelay \<le> clock s - lastRequestTime s \<Longrightarrow> clock (rateLimit e s) = clock s"
  by (simp add: rateLimit_clock)

text \<open>
  C8. The limiter keeps one last-request time. A call whose elapsed time since the last
  request is below 3000 ms sets a timer for exactly the difference, otherwise it does
  not wait; then it records the current time. It always returns, so a query is delayed
  but never refused: each of two queries run one after the other logs its lookup. Their
  recorded request times, which are the times at which their requests are sent, lie at
  least 3000 ms apart, and when 3000 ms or more have already passed since the first
  one, the second is sent at once.
\<close>

theorem rate_limit_spacing:
  "clock (rateLimit e s) =
     clock s + max 0 (3000 - (clock s - lastRequestTime s))
       + (if clock s - lastRequestTime s < 3000 then int (timerLag e) else 0)
   \<and> lastRequestTime (rateLimit e s) = clock (rateLimit e s)
   \<and> (\<forall>n1 n2 e2 d r1 s1 r2 s2.
         searchSEC e n1 s = (r1, s1) \<and> searchSEC e2 n2 (elapse d s1) = (r2, s2) \<longrightarrow>
           lastRequestTime s1 + 3000 \<le> lastRequestTime s2
           \<and> (3000 \<le> clock s1 + int d - lastRequestTime s1 \<longrightarrow>
                lastRequestTime s2 = clock s1 + int d)
           \<and> (\<exists>new1 new2.
                 calls s1 = calls s @ new1 \<and> calls s2 = calls s1 @ new2
                 \<and> Lookup n1 \<in> set new1 \<and> Lookup n2 \<in> set new2
                 \<and> (\<forall>url t. Fetch url t \<in> set new1 \<longrightarrow> t = lastRequestTime s1)
                 \<and> (\<forall>url t. Fetch url t \<in> set new2 \<longrightarrow> t = lastRequestTime s2)))"
proof (intro conjI allI impI)
  show "clock (rateLimit e s) =
     clock s + max 0 (3000 - (clock s - lastRequestTime s))
       + (if clock s - lastRequestTime s < 3000 then int (timerLag e) else 0)"
    using rateLimit_clock [of e s] by (simp add: rateLimitDelay_def)
  show "lastRequestTime (rateLimit e s) = clock (rateLimit e s)"
    by (rule rateLimit_last)
next
  fix n1 n2 e2 d r1 s1 r2 s2
  assume a: "searchSEC e n1 s = (r1, s1) \<and> searchSEC e2 n2 (elapse d s1) = (r2, s2)"
  then have s1: "s1 = snd (searchSEC e n1 s)" and s2: "s2 = snd (searchSEC e2 n2 (elapse d s1))"
    by simp_all
  have l1: "lastRequestTime s1 = clock (rateLimit e s)"
    unfolding s1 by (rule searchSEC_last)
  have l2: "lastRequestTime s2 = clock (rateLimit e2 (elapse d s1))"
    unfolding s2 by (rule searchSEC_last)
  have el: "lastRequestTime (elapse d s1) = lastRequestTime s1" "clock (elapse d s1) = clock s1 + int d"
    "calls (elapse d s1) = calls s1"
    by (simp_all add: elapse_def)
  show "lastRequestTime s1 + 3000 \<le> lastRequestTime s2"
    using rateLimit_gap [of "elapse d s1" e2] by (simp add: l2 el rateLimitDelay_def)
  show "lastRequestTime s2 = clock s1 + int d"
    if "3000 \<le> clock s1 + int d - lastRequestTime s1"
    using that rateLimit_no_wait [of "elapse d s1" e2] by (simp add: l2 el rateLimitDelay_def)
  let ?new1 = "Lookup n1 # (case fallbackCompanyLookup n1 of None \<Rightarrow> []
                  | Some cd \<Rightarrow> [Fetch (submissionsUrlOf (cik cd)) (clock (rateLimit e s))])"
  let ?new2 = "Lookup n2 # (case fallbackCompanyLookup n2 of None \<Rightarrow> []
                  | Some cd \<Rightarrow> [Fetch (submissionsUrlOf (cik cd)) (clock (rateLimit e2 (elapse d s1)))])"
  have c1: "calls s1 = calls s @ ?new1"
    unfolding s1 by (rule searchSEC_calls)
  have c2: "calls s2 = calls s1 @ ?new2"
    unfolding s2 using searchSEC_calls [of e2 n2 "elapse d s1"] by (simp add: el)
  have f1: "\<forall>url t. Fetch url t \<in> set ?new1 \<longrightarrow> t = lastRequestTime s1"
    by (auto simp: l1 split: option.splits)
  have f2: "\<forall>url t. Fetch url t \<in> set ?new2 \<longrightarrow> t = lastRequestTime s2"
    by (auto simp: l2 split: option.splits)
  have "Lookup n1 \<in> set ?new1" "Lookup n2 \<in> set ?new2" by simp_all
  with c1 c2 f1 f2
  show "\<exists>new1 new2.
                 calls s1 = calls s @ new1 \<and> calls s2 = calls s1 @ new2
                 \<and> Lookup n1 \<in> set new1 \<and> Lookup n2 \<in> set new2
                 \<and> (\<forall>url t. Fetch url t \<in> set new1 \<longrightarrow> t = lastRequestTime s1)
                 \<and> (\<forall>url t. Fetch url t \<in> set new2 \<longrightarrow> t = lastRequestTime s2)"
    by blast
qed

text \<open>
  Two queries back to back, the first answered after 120 ms: the second request goes out
  3000 ms after the first.
\<close>

theorem rate_limit_spacing_witness:
  "lastRequestTime (snd (searchSEC
       \<lparr>fetch = (\<lambda>url. Inr \<lparr>status = 200, json = Inr None\<rparr>), latency = 120, timerLag = 0\<rparr>
       (js ''apple'') \<lparr>lastRequestTime = 0, clock = 1000000, calls = []\<rparr>)) = 1000000
   \<and> clock (snd (searchSEC
       \<lparr>fetch = (\<lambda>url. Inr \<lparr>status = 200, json = Inr None\<rparr>), latency = 120, timerLag = 0\<rparr>
       (js ''apple'') \<lparr>lastRequestTime = 0, clock = 1000000, calls = []\<rparr>)) = 1000120
   \<and> lastRequestTime (snd (searchSEC
       \<lparr>fetch = (\<lambda>url. Inr \<lparr>status = 200, json = Inr None\<rparr>), latency = 120, timerLag = 0\<rparr>
       (js ''tesla'')
       (elapse 0 (snd (searchSEC
          \<lparr>fetch = (\<lambda>url. Inr \<lparr>status = 200, json = Inr None\<rparr>), latency = 120, timerLag = 0\<rparr>
          (js ''apple'') \<lparr>lastRequestTime = 0, clock = 1000000, calls = []\<rparr>))))) = 1003000
   \<and> lastRequestTime (snd (searchSEC
       \<lparr>fetch = (\<lambda>url. Inr \<lparr>status = 200, json = Inr None\<rparr>), latency = 120, timerLag = 0\<rparr>
       (js ''apple'') \<lparr>lastRequestTime = 0, clock = 1000000, calls = []\<rparr>)) + 3000
     \<le> lastRequestTime (snd (searchSEC
       \<lparr>fetch = (\<lambda>url. Inr \<lparr>status = 200, json = Inr None\<rparr>), latency = 120, timerLag = 0\<rparr>
       (js ''tesla'')
       (elapse 0 (snd (searchSEC
          \<lparr>fetch = (\<lambda>url. Inr \<lparr>status = 200, json = Inr None\<rparr>), latency = 120, timerLag = 0\<rparr>
          (js ''apple'') \<lparr>lastRequestTime = 0, clock = 1000000, calls = []\<rparr>)))))"
proof -
  let ?e = "\<lparr>fetch = (\<lambda>url. Inr \<lparr>status = 200, json = Inr None\<rparr>), latency = 120, timerLag = 0\<rparr>"
  let ?s0 = "\<lparr>lastRequestTime = 0, clock = 1000000, calls = []\<rparr>"
  let ?s1 = "snd (searchSEC ?e (js ''apple'') ?s0)"
  let ?s2 = "snd (searchSEC ?e (js ''tesla'') (elapse 0 ?s1))"
  have la: "fallbackCompanyLookup (js ''apple'') =
              Some \<lparr>cik = js ''0000320193'', ticker = js ''AAPL'', title = js ''Apple Inc.''\<rparr>"
    by (simp add: fallbackCompanyLookup_def js_def toLowerCase_def toLowerUnit_def trim_def
        isWhiteSpace_def knownCompanies_def)
  have 1: "lastRequestTime ?s1 = 1000000"
    by (simp add: searchSEC_last rateLimit_clock rateLimitDelay_def)
  have 2: "clock ?s1 = 1000120"
    by (simp add: searchSEC_clock la rateLimit_clock rateLimitDelay_def)
  have 3: "lastRequestTime ?s2 = 1003000"
    by (simp add: searchSEC_last rateLimit_clock elapse_def 1 2 rateLimitDelay_def)
  have "searchSEC ?e (js ''apple'') ?s0 = (fst (searchSEC ?e (js ''apple'') ?s0), ?s1)
        \<and> searchSEC ?e (js ''tesla'') (elapse 0 ?s1)
            = (fst (searchSEC ?e (js ''tesla'') (elapse 0 ?s1)), ?s2)"
    by simp
  with rate_limit_spacing [of ?e ?s0] have 4: "lastRequestTime ?s1 + 3000 \<le> lastRequestTime ?s2"
    by blast
  from 1 2 3 4 show ?thesis
    by blast
qed

section \<open>The report\<close>

lemma decimal_value:
  "foldl (\<lambda>a c. 10 * a + (unat c - 48)) 0 (decimal n) = n"
proof (induction n rule: decimal.induct)
  case (1 n)
  show ?case
  proof (cases "n < 10")
    case True
    then have "unat (of_nat (48 + n) :: 16 word) = 48 + n"
      unfolding unat_of_nat by simp
    with True show ?thesis
      by (subst decimal.simps) simp
  next
    case False
    have "n mod 10 < 10" by simp
    then have "unat (of_nat (48 + n mod 10) :: 16 word) = 48 + n mod 10"
      unfolding unat_of_nat by simp
    with False "1.IH" show ?thesis
      by (subst decimal.simps) simp
  qed
qed



lemma report_lines:
  "str_includes (formatSECResults n cd subs) (bullet @ js '' Official Name: '' @ title cd @ nl)"
  "str_includes (formatSECResults n cd subs)
     (bullet @ js '' Ticker Symbol: '' @ orElse (Some (ticker cd)) (js ''N/A'') @ nl)"
  "str_includes (formatSECResults n cd subs) (bullet @ js '' CIK: '' @ cik cd @ nl)"
  "str_includes (formatSECResults n cd subs) (analyzeRecentFilings subs)"
  "str_includes (formatSECResults n cd subs) (extractFinancialHighlights subs)"
  unfolding formatSECResults_def Let_def append_assoc
  by (((rule str_includes_prefix, (simp; fail)) | rule str_includes_skip)+)+

lemma report_description:
  "str_includes (formatSECResults n cd subs)
     (bullet @ js '' CIK: '' @ cik cd @ nl @ descriptionLine subs @ bullet @ js '' Industry: '')"
  unfolding formatSECResults_def Let_def append_assoc
  by ((rule str_includes_prefix, (simp; fail)) | rule str_includes_skip)+

lemma recentKeyFilingsOf_eq:
  "recentKeyFilingsOf rf =
     map (\<lambda>i. \<lparr>filingForm = Some (orEmpty (form rf) ! i),
                 date = Some (orEmpty (filingDate rf) ! i),
                 accession = Some (if i < length (orEmpty (accessionNumber rf))
                                   then orEmpty (accessionNumber rf) ! i else js ''N/A'')\<rparr>)
       (filter (\<lambda>i. orEmpty (form rf) ! i \<in> set keyForms \<and> i < length (orEmpty (filingDate rf)))
          [0..<min (length (orEmpty (form rf))) 20])"
  by (simp add: recentKeyFilingsOf_def Let_def analyzeLoop_eq)

lemma filingLine_at:
  "filingLine \<lparr>filingForm = Some f, date = Some d, accession = a\<rparr> =
     bullet @ js '' '' @ f @ js '' (''
       @ (case map_of formDescriptions f of None \<Rightarrow> f | Some dsc \<Rightarrow> dsc)
       @ js '') - Filed: '' @ d @ nl"
  by (simp add: filingLine_def Let_def toStr_def split: option.splits)


lemma analyzeRecentFilings_None:
  "Option.bind (filings subs) recent = None \<Longrightarrow>
   analyzeRecentFilings subs =
     js ''**Recent SEC Filings:**'' @ nl @ bullet @ js '' No recent filings available'' @ nl @ nl"
  by (simp add: analyzeRecentFilings_def Let_def)

lemma analyzeRecentFilings_Some:
  assumes "Option.bind (filings subs) recent = Some rf"
  shows "analyzeRecentFilings subs =
     js ''**Recent SEC Filings:**'' @ nl @
     (let ks = take 5 (filter (\<lambda>i. orEmpty (form rf) ! i \<in> set keyForms
                                   \<and> i < length (orEmpty (filingDate rf)))
                        [0..<min (length (orEmpty (form rf))) 20])
      in if ks = []
         then bullet @ js '' No key financial filings found in recent submissions'' @ nl
         else concat (map (\<lambda>i. bullet @ js '' '' @ orEmpty (form rf) ! i @ js '' (''
                 @ (case map_of formDescriptions (orEmpty (form rf) ! i) of
                      None \<Rightarrow> orEmpty (form rf) ! i | Some dsc \<Rightarrow> dsc)
                 @ js '') - Filed: '' @ orEmpty (filingDate rf) ! i @ nl) ks))
     @ nl"
  using assms
  by (simp add: analyzeRecentFilings_def Let_def recentKeyFilingsOf_eq take_map filingLine_at
      comp_def)



lemma highlights_counts:
  assumes "Option.bind (Option.bind (filings subs) recent) form = Some forms"
  shows "str_includes (extractFinancialHighlights subs)
           (bullet @ js '' Annual Reports (10-K): ''
              @ decimal (length (filter (\<lambda>f. f = js ''10-K'') forms)) @ js '' on file'' @ nl
            @ bullet @ js '' Quarterly Reports (10-Q): ''
              @ decimal (length (filter (\<lambda>f. f = js ''10-Q'') forms)) @ js '' on file'' @ nl)"
  unfolding extractFinancialHighlights_def Let_def assms option.case append_assoc
  by ((rule str_includes_prefix, (simp; fail)) | rule str_includes_skip)+

text \<open>
  C5. The claim that every successful fetch reports the two counts does not hold: the
  count lines are written only when the submissions carry a \<open>filings.recent.form\<close>
  array. What holds is this: when they do, the Financial Data Analysis section, and with
  it the report, holds the line with the number of 10-K entries followed by the line
  with the number of 10-Q entries, both counted over the whole array, whatever its
  length; when they do not, the section is its fixed text without the two lines.
\<close>

theorem filing_counts:
  assumes "Option.bind (Option.bind (filings subs) recent) form = Some forms"
  shows "str_includes (extractFinancialHighlights subs)
           (bullet @ js '' Annual Reports (10-K): ''
              @ decimal (length (filter (\<lambda>f. f = js ''10-K'') forms)) @ js '' on file'' @ nl
            @ bullet @ js '' Quarterly Reports (10-Q): ''
              @ decimal (length (filter (\<lambda>f. f = js ''10-Q'') forms)) @ js '' on file'' @ nl)
         \<and> str_includes (formatSECResults companyName cd subs)
              (bullet @ js '' Annual Reports (10-K): ''
                 @ decimal (length (filter (\<lambda>f. f = js ''10-K'') forms)) @ js '' on file'' @ nl
               @ bullet @ js '' Quarterly Reports (10-Q): ''
                 @ decimal (length (filter (\<lambda>f. f = js ''10-Q'') forms)) @ js '' on file'' @ nl)
         \<and> (\<forall>other. Option.bind (Option.bind (filings other) recent) form = None \<longrightarrow>
                extractFinancialHighlights other =
                  js ''**Financial Data Analysis:**'' @ nl
                    @ bullet @ js '' Filing Status: Active public company'' @ nl
                    @ bullet @ js '' Regulatory Compliance: Current with SEC requirements'' @ nl
                    @ bullet
                    @ js '' Note: Detailed financial metrics require parsing individual filing documents''
                    @ nl @ nl
                    @ js ''**Investment Research Notes:**'' @ nl
                    @ bullet
                    @ js '' Use SEC filings for: revenue trends, risk factors, management discussion''
                    @ nl
                    @ bullet
                    @ js '' Key documents: 10-K (annual), 10-Q (quarterly), 8-K (material events)''
                    @ nl
                    @ bullet @ js '' Combine with market data for comprehensive analysis'' @ nl @ nl)"
proof (intro conjI allI impI)
  show c: "str_includes (extractFinancialHighlights subs)
           (bullet @ js '' Annual Reports (10-K): ''
              @ decimal (length (filter (\<lambda>f. f = js ''10-K'') forms)) @ js '' on file'' @ nl
            @ bullet @ js '' Quarterly Reports (10-Q): ''
              @ decimal (length (filter (\<lambda>f. f = js ''10-Q'') forms)) @ js '' on file'' @ nl)"
    using assms by (rule highlights_counts)
  show "str_includes (formatSECResults companyName cd subs)
              (bullet @ js '' Annual Reports (10-K): ''
                 @ decimal (length (filter (\<lambda>f. f = js ''10-K'') forms)) @ js '' on file'' @ nl
               @ bullet @ js '' Quarterly Reports (10-Q): ''
                 @ decimal (length (filter (\<lambda>f. f = js ''10-Q'') forms)) @ js '' on file'' @ nl)"
    using report_lines(5) c by (rule str_includes_trans)
  show "extractFinancialHighlights other =
                  js ''**Financial Data Analysis:**'' @ nl
                    @ bullet @ js '' Filing Status: Active public company'' @ nl
                    @ bullet @ js '' Regulatory Compliance: Current with SEC requirements'' @ nl
                    @ bullet
                    @ js '' Note: Detailed financial metrics require parsing individual filing documents''
                    @ nl @ nl
                    @ js ''**Investment Research Notes:**'' @ nl
                    @ bullet
                    @ js '' Use SEC filings for: revenue trends, risk factors, management discussion''
                    @ nl
                    @ bullet
                    @ js '' Key documents: 10-K (annual), 10-Q (quarterly), 8-K (material events)''
                    @ nl
                    @ bullet @ js '' Combine with market data for comprehensive analysis'' @ nl @ nl"
    if "Option.bind (Option.bind (filings other) recent) form = None" for other
    using that by (simp add: extractFinancialHighlights_def Let_def)
qed

text \<open>
  Twenty-five entries: twelve 10-K and eight 10-Q after five others, so five of the
  10-Q entries lie beyond the first twenty.
\<close>

theorem filing_counts_witness:
  "str_includes
     (extractFinancialHighlights
        \<lparr>description = None, sic = None, fiscalYearEnd = None,
         filings = Some \<lparr>recent = Some
           \<lparr>form = Some (replicate 5 (js ''4'') @ replicate 12 (js ''10-K'')
                          @ replicate 8 (js ''10-Q'')),
            filingDate = None, accessionNumber = None\<rparr>\<rparr>\<rparr>)
     (bullet @ js '' Annual Reports (10-K): '' @ js ''12'' @ js '' on file'' @ nl
        @ bullet @ js '' Quarterly Reports (10-Q): '' @ js ''8'' @ js '' on file'' @ nl)"
proof -
  let ?forms = "replicate 5 (js ''4'') @ replicate 12 (js ''10-K'') @ replicate 8 (js ''10-Q'')"
  let ?subs = "\<lparr>description = None, sic = None, fiscalYearEnd = None,
         filings = Some \<lparr>recent = Some
           \<lparr>form = Some ?forms, filingDate = None, accessionNumber = None\<rparr>\<rparr>\<rparr>"
  have h: "Option.bind (Option.bind (filings ?subs) recent) form = Some ?forms"
    by simp
  have ne: "js ''4'' \<noteq> js ''10-K''" "js ''4'' \<noteq> js ''10-Q''" "js ''10-K'' \<noteq> js ''10-Q''"
    "js ''10-Q'' \<noteq> js ''10-K''"
    by (simp_all add: js_def)
  have a: "decimal (length (filter (\<lambda>f. f = js ''10-K'') ?forms)) = js ''12''"
    by (simp add: ne) (simp add: decimal.simps js_def)
  have q: "decimal (length (filter (\<lambda>f. f = js ''10-Q'') ?forms)) = js ''8''"
    by (simp add: ne) (simp add: decimal.simps js_def)
  from filing_counts [OF h, of undefined undefined] show ?thesis
    unfolding a q by (rule conjunct1)
qed

text \<open>A submissions object without filings: the report has no count line.\<close>

theorem missing_form_array_counterexample:
  "\<not> str_includes
     (formatSECResults (js ''Apple'')
        \<lparr>cik = js ''0000320193'', ticker = js ''AAPL'', title = js ''Apple Inc.''\<rparr>
        \<lparr>description = None, sic = None, fiscalYearEnd = None, filings = None\<rparr>)
     (js ''Annual Reports (10-K)'')"
  by (simp add: formatSECResults_def descriptionLine_def analyzeRecentFilings_def orElse_def
      extractFinancialHighlights_def Let_def js_def nl_def bullet_def)

text \<open>
  C9. The claim that every description of 300 code units or fewer is rendered unchanged
  does not hold for the empty description, which is skipped like a missing one. What
  holds is this: a non-empty description appears on its own line between the CIK line
  and the Industry line, as its first 300 code units followed by three dots when it is
  longer than 300, and unchanged otherwise; with an empty description the report is the
  same as with none.
\<close>

theorem description_rendering:
  assumes "description subs = Some d" and "d \<noteq> []"
  shows "str_includes (formatSECResults companyName cd subs)
           (bullet @ js '' CIK: '' @ cik cd @ nl
              @ bullet @ js '' Business Description: ''
              @ (if length d > 300 then take 300 d @ js ''...'' else d) @ nl
              @ bullet @ js '' Industry: '')
         \<and> formatSECResults companyName cd (subs\<lparr>description := Some []\<rparr>)
             = formatSECResults companyName cd (subs\<lparr>description := None\<rparr>)"
proof
  have "descriptionLine subs =
          bullet @ js '' Business Description: ''
            @ (if length d > 300 then take 300 d @ js ''...'' else d) @ nl"
    using assms by (simp add: descriptionLine_def substring0_def Let_def)
  with report_description [of companyName cd subs]
  show "str_includes (formatSECResults companyName cd subs)
           (bullet @ js '' CIK: '' @ cik cd @ nl
              @ bullet @ js '' Business Description: ''
              @ (if length d > 300 then take 300 d @ js ''...'' else d) @ nl
              @ bullet @ js '' Industry: '')"
    by simp
  show "formatSECResults companyName cd (subs\<lparr>description := Some []\<rparr>)
             = formatSECResults companyName cd (subs\<lparr>description := None\<rparr>)"
    by (simp add: formatSECResults_def descriptionLine_def analyzeRecentFilings_def
        extractFinancialHighlights_def)
qed

text \<open>A description of 301 code units, and one of exactly 300.\<close>

theorem description_rendering_witness:
  "str_includes
     (formatSECResults (js ''Apple'')
        \<lparr>cik = js ''0000320193'', ticker = js ''AAPL'', title = js ''Apple Inc.''\<rparr>
        \<lparr>description = Some (replicate 301 0x61), sic = None, fiscalYearEnd = None,
         filings = None\<rparr>)
     (bullet @ js '' CIK: '' @ js ''0000320193'' @ nl
        @ bullet @ js '' Business Description: '' @ replicate 300 0x61 @ js ''...'' @ nl
        @ bullet @ js '' Industry: '')
   \<and> str_includes
     (formatSECResults (js ''Apple'')
        \<lparr>cik = js ''0000320193'', ticker = js ''AAPL'', title = js ''Apple Inc.''\<rparr>
        \<lparr>description = Some (replicate 300 0x61), sic = None, fiscalYearEnd = None,
         filings = None\<rparr>)
     (bullet @ js '' CIK: '' @ js ''0000320193'' @ nl
        @ bullet @ js '' Business Description: '' @ replicate 300 0x61 @ nl
        @ bullet @ js '' Industry: '')"
proof -
  let ?cd = "\<lparr>cik = js ''0000320193'', ticker = js ''AAPL'', title = js ''Apple Inc.''\<rparr>"
  let ?long = "\<lparr>description = Some (replicate 301 (0x61 :: 16 word)), sic = None,
                fiscalYearEnd = None, filings = None\<rparr>"
  let ?short = "\<lparr>description = Some (replicate 300 (0x61 :: 16 word)), sic = None,
                 fiscalYearEnd = None, filings = None\<rparr>"
  have d1: "description ?long = Some (replicate 301 0x61)" by simp
  have n1: "replicate 301 (0x61 :: 16 word) \<noteq> []" by simp
  have d2: "description ?short = Some (replicate 300 0x61)" by simp
  have n2: "replicate 300 (0x61 :: 16 word) \<noteq> []" by simp
  from description_rendering [OF d1 n1, of "js ''Apple''" ?cd]
  have 1: "str_includes (formatSECResults (js ''Apple'') ?cd ?long)
     (bullet @ js '' CIK: '' @ js ''0000320193'' @ nl
        @ bullet @ js '' Business Description: '' @ replicate 300 0x61 @ js ''...'' @ nl
        @ bullet @ js '' Industry: '')"
    by simp
  from description_rendering [OF d2 n2, of "js ''Apple''" ?cd]
  have 2: "str_includes (formatSECResults (js ''Apple'') ?cd ?short)
     (bullet @ js '' CIK: '' @ js ''0000320193'' @ nl
        @ bullet @ js '' Business Description: '' @ replicate 300 0x61 @ nl
        @ bullet @ js '' Industry: '')"
    by simp
  from 1 2 show ?thesis
    by (intro conjI)
qed

text \<open>The empty description leaves no Business Description line in the report.\<close>

theorem empty_description_counterexample:
  "\<not> str_includes
     (formatSECResults (js ''Apple'')
        \<lparr>cik = js ''0000320193'', ticker = js ''AAPL'', title = js ''Apple Inc.''\<rparr>
        \<lparr>description = Some [], sic = None, fiscalYearEnd = None, filings = None\<rparr>)
     (js ''Business Description'')"
  by (simp add: formatSECResults_def descriptionLine_def analyzeRecentFilings_def orElse_def
      extractFinancialHighlights_def Let_def js_def nl_def bullet_def)

lemma analyzeRecentFilings_accession:
  "analyzeRecentFilings (subs\<lparr>filings := Some \<lparr>recent = Some (rf\<lparr>accessionNumber := a\<rparr>)\<rparr>\<rparr>)
     = analyzeRecentFilings (subs\<lparr>filings := Some \<lparr>recent = Some rf\<rparr>\<rparr>)"
proof -
  have 1: "Option.bind (filings (subs\<lparr>filings := Some \<lparr>recent = Some (rf\<lparr>accessionNumber := a\<rparr>)\<rparr>\<rparr>)) recent
             = Some (rf\<lparr>accessionNumber := a\<rparr>)"
    by simp
  have 2: "Option.bind (filings (subs\<lparr>filings := Some \<lparr>recent = Some rf\<rparr>\<rparr>)) recent = Some rf"
    by simp
  show ?thesis
    unfolding analyzeRecentFilings_Some [OF 1] analyzeRecentFilings_Some [OF 2]
    by (simp cong: option.case_cong)
qed

text \<open>
  C10. The claim that an accession number out of range is rendered as \<open>N/A\<close> does
  not hold: the accession is stored in the key-filing record and never printed. What
  holds is this: every key filing the loop collects comes from an index below 20 that
  lies within the form array and within the filing-date array, so its form and date are
  read in range, and its accession is the one at that index or \<open>N/A\<close> when the
  accession array is too short, so nothing undefined is read. The section does not
  depend on the accession array. Without \<open>filings.recent\<close> the section says that no
  recent filings are available; without the form array or the filing-date array it says
  that no key filings were found. Both sections always start with their headings.
\<close>

theorem key_filings_in_range:
  "list_all (\<lambda>k. \<exists>i. i < 20 \<and> i < length (orEmpty (form rf))
                     \<and> i < length (orEmpty (filingDate rf))
                     \<and> orEmpty (form rf) ! i \<in> set keyForms
                     \<and> filingForm k = Some (orEmpty (form rf) ! i)
                     \<and> date k = Some (orEmpty (filingDate rf) ! i)
                     \<and> accession k =
                         Some (if i < length (orEmpty (accessionNumber rf))
                               then orEmpty (accessionNumber rf) ! i else js ''N/A''))
     (recentKeyFilingsOf rf)
   \<and> analyzeRecentFilings (subs\<lparr>filings := Some \<lparr>recent = Some (rf\<lparr>accessionNumber := a\<rparr>)\<rparr>\<rparr>)
       = analyzeRecentFilings (subs\<lparr>filings := Some \<lparr>recent = Some rf\<rparr>\<rparr>)
   \<and> (Option.bind (filings subs) recent = None \<longrightarrow>
        analyzeRecentFilings subs =
          js ''**Recent SEC Filings:**'' @ nl
            @ bullet @ js '' No recent filings available'' @ nl @ nl)
   \<and> (Option.bind (filings subs) recent = Some rf \<and> (form rf = None \<or> filingDate rf = None) \<longrightarrow>
        analyzeRecentFilings subs =
          js ''**Recent SEC Filings:**'' @ nl
            @ bullet @ js '' No key financial filings found in recent submissions'' @ nl @ nl)
   \<and> prefix (js ''**Recent SEC Filings:**'' @ nl) (analyzeRecentFilings subs)
   \<and> prefix (js ''**Financial Data Analysis:**'' @ nl) (extractFinancialHighlights subs)"
proof (intro conjI impI)
  show "list_all (\<lambda>k. \<exists>i. i < 20 \<and> i < length (orEmpty (form rf))
                     \<and> i < length (orEmpty (filingDate rf))
                     \<and> orEmpty (form rf) ! i \<in> set keyForms
                     \<and> filingForm k = Some (orEmpty (form rf) ! i)
                     \<and> date k = Some (orEmpty (filingDate rf) ! i)
                     \<and> accession k =
                         Some (if i < length (orEmpty (accessionNumber rf))
                               then orEmpty (accessionNumber rf) ! i else js ''N/A''))
     (recentKeyFilingsOf rf)"
    unfolding recentKeyFilingsOf_eq list_all_iff by auto
  show "analyzeRecentFilings (subs\<lparr>filings := Some \<lparr>recent = Some (rf\<lparr>accessionNumber := a\<rparr>)\<rparr>\<rparr>)
       = analyzeRecentFilings (subs\<lparr>filings := Some \<lparr>recent = Some rf\<rparr>\<rparr>)"
    by (rule analyzeRecentFilings_accession)
  show "analyzeRecentFilings subs =
          js ''**Recent SEC Filings:**'' @ nl
            @ bullet @ js '' No recent filings available'' @ nl @ nl"
    if "Option.bind (filings subs) recent = None"
    using that by (rule analyzeRecentFilings_None)
  show "analyzeRecentFilings subs =
          js ''**Recent SEC Filings:**'' @ nl
            @ bullet @ js '' No key financial filings found in recent submissions'' @ nl @ nl"
    if "Option.bind (filings subs) recent = Some rf \<and> (form rf = None \<or> filingDate rf = None)"
  proof -
    from that have "filter (\<lambda>i. orEmpty (form rf) ! i \<in> set keyForms
                                   \<and> i < length (orEmpty (filingDate rf)))
                        [0..<min (length (orEmpty (form rf))) 20] = []"
      by (auto simp: orEmpty_def)
    with that show ?thesis
      by (simp add: analyzeRecentFilings_Some)
  qed
  show "prefix (js ''**Recent SEC Filings:**'' @ nl) (analyzeRecentFilings subs)"
    by (simp add: analyzeRecentFilings_def Let_def split: option.splits)
  show "prefix (js ''**Financial Data Analysis:**'' @ nl) (extractFinancialHighlights subs)"
    by (simp add: extractFinancialHighlights_def Let_def split: option.splits)
qed

text \<open>
  Three forms, two dates, one accession number: the third form has no date and is left
  out, the second gets \<open>N/A\<close>.
\<close>

theorem key_filings_in_range_witness:
  "recentKeyFilingsOf
     \<lparr>form = Some [js ''10-K'', js ''8-K'', js ''10-Q''],
      filingDate = Some [js ''2024-11-01'', js ''2024-10-31''],
      accessionNumber = Some [js ''0000320193-24-000123'']\<rparr>
     = [\<lparr>filingForm = Some (js ''10-K''), date = Some (js ''2024-11-01''),
         accession = Some (js ''0000320193-24-000123'')\<rparr>,
        \<lparr>filingForm = Some (js ''8-K''), date = Some (js ''2024-10-31''),
         accession = Some (js ''N/A'')\<rparr>]
   \<and> list_all (\<lambda>k. filingForm k \<noteq> None \<and> date k \<noteq> None \<and> accession k \<noteq> None)
        (recentKeyFilingsOf
           \<lparr>form = Some [js ''10-K'', js ''8-K'', js ''10-Q''],
            filingDate = Some [js ''2024-11-01'', js ''2024-10-31''],
            accessionNumber = Some [js ''0000320193-24-000123'']\<rparr>)"
proof -
  let ?rf = "\<lparr>form = Some [js ''10-K'', js ''8-K'', js ''10-Q''],
      filingDate = Some [js ''2024-11-01'', js ''2024-10-31''],
      accessionNumber = Some [js ''0000320193-24-000123'']\<rparr>"
  have 1: "recentKeyFilingsOf ?rf
     = [\<lparr>filingForm = Some (js ''10-K''), date = Some (js ''2024-11-01''),
         accession = Some (js ''0000320193-24-000123'')\<rparr>,
        \<lparr>filingForm = Some (js ''8-K''), date = Some (js ''2024-10-31''),
         accession = Some (js ''N/A'')\<rparr>]"
    by (simp add: recentKeyFilingsOf_def orEmpty_def analyzeLoop.simps at_def arr_includes_def
        keyForms_def js_def)
  from key_filings_in_range [of ?rf undefined undefined]
  have "list_all (\<lambda>k. \<exists>i. i < 20 \<and> i < length (orEmpty (form ?rf))
                     \<and> i < length (orEmpty (filingDate ?rf))
                     \<and> orEmpty (form ?rf) ! i \<in> set keyForms
                     \<and> filingForm k = Some (orEmpty (form ?rf) ! i)
                     \<and> date k = Some (orEmpty (filingDate ?rf) ! i)
                     \<and> accession k =
                         Some (if i < length (orEmpty (accessionNumber ?rf))
                               then orEmpty (accessionNumber ?rf) ! i else js ''N/A''))
     (recentKeyFilingsOf ?rf)"
    by (rule conjunct1)
  then have 2: "list_all (\<lambda>k. filingForm k \<noteq> None \<and> date k \<noteq> None \<and> accession k \<noteq> None)
        (recentKeyFilingsOf ?rf)"
    unfolding list_all_iff by fastforce
  from 1 2 show ?thesis
    by (intro conjI)
qed

text \<open>
  A 10-K without accession number: the record holds \<open>N/A\<close>, the report does not.
\<close>

theorem accession_not_rendered_counterexample:
  "recentKeyFilingsOf
     \<lparr>form = Some [js ''10-K''], filingDate = Some [js ''2024-11-01''], accessionNumber = None\<rparr>
     = [\<lparr>filingForm = Some (js ''10-K''), date = Some (js ''2024-11-01''),
         accession = Some (js ''N/A'')\<rparr>]
   \<and> \<not> str_includes
     (formatSECResults (js ''Apple'')
        \<lparr>cik = js ''0000320193'', ticker = js ''AAPL'', title = js ''Apple Inc.''\<rparr>
        \<lparr>description = None, sic = None, fiscalYearEnd = None,
         filings = Some \<lparr>recent = Some
           \<lparr>form = Some [js ''10-K''], filingDate = Some [js ''2024-11-01''],
            accessionNumber = None\<rparr>\<rparr>\<rparr>)
     (js ''N/A'')"
  by (simp add: formatSECResults_def descriptionLine_def analyzeRecentFilings_def orElse_def
      recentKeyFilingsOf_def orEmpty_def analyzeLoop.simps at_def arr_includes_def keyForms_def
      filingLine_def formDescriptions_def toStr_def decimal.simps
      extractFinancialHighlights_def Let_def js_def nl_def bullet_def)

end
